theory Spec2Isabelle
  imports Main
begin

section \<open>The hangman server: data model\<close>

text \<open>
  The controller \<^verbatim>\<open>src/game/game.controller.ts\<close> sequences calls to the game service
  (\<^verbatim>\<open>GameService\<close>), to the room entity (\<^verbatim>\<open>RoomEntity\<close>) and to the broadcast gateway
  (\<^verbatim>\<open>GameGateway\<close>). The controller is embedded from its source. The service, the room
  entity, the gateway and the guards live in files that are not among the sources
  (\<^verbatim>\<open>game.service.ts\<close>, \<^verbatim>\<open>game.models.ts\<close>, \<^verbatim>\<open>game.gateway.ts\<close>,
  \<^verbatim>\<open>player-in-turn.guard.ts\<close>); each of their operations is modelled from the
  specification and marked so.

  A letter is a \<^typ>\<open>char\<close>, a word a \<^typ>\<open>string\<close>; letters are compared as they are
  given (the case normalisation the specification asks for is the same on both sides of
  every comparison and is taken as done on input).
\<close>

record PlayerInfo =
  player_id :: string
  player_name :: string
  points :: nat

record LetterInfo =
  letter :: char
  guessed :: bool

record GuessInfo =
  guess_letter :: char
  hit :: bool
  positions :: "nat list"
  guess_player :: string

datatype FinishReason = WordCompleted

record FinishState =
  fs_player :: PlayerInfo
  reason :: FinishReason

record ReturningPlayer =
  rp_roomId :: string
  rp_round :: nat
  wasMaster :: bool
  rp_player :: PlayerInfo

text \<open>
  The room of section 3 of the specification. \<open>creditedPlayer\<close> and \<open>finishReported\<close>
  carry what section 4 asks of completion detection: the player credited by the last
  successful guess, and whether the finish of the current word has been handed out.
  A room has no \<open>id\<close> field of its own: the registry holds every room under its id, and
  a reference to a room is that id.
\<close>

record RoomEntity =
  round :: nat
  players :: "PlayerInfo list"
  masterId :: string
  currentTurn :: string
  currentWord :: "LetterInfo list"
  guessedLetters :: "char set"
  creditedPlayer :: "string option"
  finishReported :: bool

datatype error =
    RoomNotFoundError
  | PlayerNotFoundError
  | BadRequestException string
  | NotTurnHolderError
  | NotAwaitingWordError
  | InvalidWordError
  | NoGuesserError

text \<open>The events the gateway pushes to a room's subscribers, one constructor per method
  of \<^verbatim>\<open>GameGateway\<close> the controller calls; the first argument is the room id.\<close>

datatype event =
    PlayerJoined string PlayerInfo
  | PlayerLeft string ReturningPlayer
  | MasterChanged string string
  | WordSet string "LetterInfo list"
  | NewGuess string GuessInfo
  | NewTurn string string
  | GameFinished string FinishState
  | PlayerUpdated string PlayerInfo
  | NewWordGuess string string

text \<open>
  The state a request runs in: the registry's two maps (room id to room, user id to
  returning-player record) and the trace of events broadcast so far, oldest first.
\<close>

record world =
  rooms :: "string \<rightharpoonup> RoomEntity"
  returningPlayers :: "string \<rightharpoonup> ReturningPlayer"
  events :: "event list"

subsection \<open>Requests as state transformers that may throw\<close>

text \<open>
  A controller method reads and mutates the state and either returns a value or throws.
  A throw keeps the state as it is at the throw: there is no rollback.
\<close>

type_synonym 'a act = "world \<Rightarrow> (error + 'a) \<times> world"

definition ret :: "'a \<Rightarrow> 'a act" where
  "ret x s = (Inr x, s)"

definition throw :: "error \<Rightarrow> 'a act" where
  "throw e s = (Inl e, s)"

definition andThen :: "'a act \<Rightarrow> ('a \<Rightarrow> 'b act) \<Rightarrow> 'b act" where
  "andThen m f s = (case m s of (Inl e, s') \<Rightarrow> (Inl e, s') | (Inr x, s') \<Rightarrow> f x s')"

text \<open>\<^verbatim>\<open>xs.map(f)\<close> with an effectful \<open>f\<close>: the calls run in list order, and the first
  throw ends the loop.\<close>

fun mapAct :: "('a \<Rightarrow> 'b act) \<Rightarrow> 'a list \<Rightarrow> ('b list) act" where
  "mapAct f [] = ret []"
| "mapAct f (x # xs) =
     andThen (f x) (\<lambda>y. andThen (mapAct f xs) (\<lambda>ys. ret (y # ys)))"

text \<open>\<^verbatim>\<open>xs.forEach(f)\<close>.\<close>

fun forEachAct :: "('a \<Rightarrow> unit act) \<Rightarrow> 'a list \<Rightarrow> unit act" where
  "forEachAct f [] = ret ()"
| "forEachAct f (x # xs) = andThen (f x) (\<lambda>_. forEachAct f xs)"

section \<open>The collaborators, from the specification\<close>

subsection \<open>Room entity\<close>

text \<open>A room method runs on the room a reference points to and writes the mutated room
  back under the same reference; a method that throws leaves the room as it was.\<close>

definition readRoom :: "string \<Rightarrow> RoomEntity act" where
  "readRoom room s =
     (case rooms s room of
        None \<Rightarrow> (Inl RoomNotFoundError, s)
      | Some r \<Rightarrow> (Inr r, s))"

definition onRoom :: "string \<Rightarrow> (RoomEntity \<Rightarrow> error + 'a \<times> RoomEntity) \<Rightarrow> 'a act" where
  "onRoom room m s =
     (case rooms s room of
        None \<Rightarrow> (Inl RoomNotFoundError, s)
      | Some r \<Rightarrow>
          (case m r of
             Inl e \<Rightarrow> (Inl e, s)
           | Inr (x, r') \<Rightarrow> (Inr x, s\<lparr>rooms := (rooms s)(room \<mapsto> r')\<rparr>)))"

definition is_alpha :: "char \<Rightarrow> bool" where
  "is_alpha c =
     (let n = (of_char c :: nat)
      in (65 \<le> n \<and> n \<le> 90) \<or> (97 \<le> n \<and> n \<le> 122))"

text \<open>Modelled from the spec: \<^verbatim>\<open>RoomEntity.setWord\<close> (game.models.ts is not among the
  sources). Section 4.1: valid in the state \<open>AwaitingWord\<close> (no current word) with a
  non-empty alphabetic word; stores the word letter by letter with \<open>guessed = false\<close>;
  the letters tried are reset with each word. The method takes the word only, so the
  check on who calls is the guard's. The specification names no error for the wrong
  state; the model calls it \<open>NotAwaitingWordError\<close>.\<close>

definition room_setWord :: "string \<Rightarrow> RoomEntity \<Rightarrow> error + unit \<times> RoomEntity" where
  "room_setWord word r =
     (if currentWord r \<noteq> [] then Inl NotAwaitingWordError
      else if word = [] \<or> \<not> list_all is_alpha word then Inl InvalidWordError
      else Inr ((), r\<lparr>currentWord := map (\<lambda>c. \<lparr>letter = c, guessed = False\<rparr>) word,
                       guessedLetters := {},
                       creditedPlayer := None,
                       finishReported := False\<rparr>))"

text \<open>Modelled from the spec: \<^verbatim>\<open>RoomEntity.checkGuessIsPresent\<close> (game.models.ts is not among
  the sources). Section 4.1: a pure predicate, true if the letter is already in
  \<open>guessedLetters\<close>.\<close>

definition room_checkGuessIsPresent :: "char \<Rightarrow> RoomEntity \<Rightarrow> bool" where
  "room_checkGuessIsPresent c r = (c \<in> guessedLetters r)"

text \<open>Modelled from the spec: \<^verbatim>\<open>RoomEntity.addGuess\<close> (game.models.ts is not among the
  sources). Section 4.1: marks all matching positions guessed, adds the letter to
  \<open>guessedLetters\<close>, awards the acting player (the turn holder) one point per revealed
  occurrence and returns the \<open>GuessInfo\<close> (letter, hit, positions, acting player). A hit
  makes the acting player the credited one.\<close>

definition room_addGuess :: "char \<Rightarrow> RoomEntity \<Rightarrow> error + GuessInfo \<times> RoomEntity" where
  "room_addGuess c r =
     (let w = currentWord r;
          ps = filter (\<lambda>i. letter (w ! i) = c) [0..<length w];
          actor = currentTurn r
      in Inr (\<lparr>guess_letter = c, hit = (ps \<noteq> []), positions = ps, guess_player = actor\<rparr>,
              r\<lparr>currentWord := map (\<lambda>l. if letter l = c then l\<lparr>guessed := True\<rparr> else l) w,
                guessedLetters := insert c (guessedLetters r),
                players := map (\<lambda>p. if player_id p = actor
                                        then p\<lparr>points := points p + length ps\<rparr> else p)
                               (players r),
                creditedPlayer := (if ps = [] then creditedPlayer r else Some actor)\<rparr>))"

text \<open>The ids of the players eligible to guess: every player but the master, in join
  order.\<close>

definition guessers :: "RoomEntity \<Rightarrow> string list" where
  "guessers r = map player_id (filter (\<lambda>p. player_id p \<noteq> masterId r) (players r))"

text \<open>The element after the first occurrence of \<open>x\<close>, if there is one.\<close>

fun next_after :: "'a \<Rightarrow> 'a list \<Rightarrow> 'a option" where
  "next_after x [] = None"
| "next_after x [y] = None"
| "next_after x (y # z # zs) = (if y = x then Some z else next_after x (z # zs))"

text \<open>Modelled from the spec: \<^verbatim>\<open>RoomEntity.updateNextTurn\<close> (game.models.ts is not among the
  sources). Section 4.1: advances \<open>currentTurn\<close> to the next eligible guesser in
  round-robin order, skipping the master, and wraps to the first guesser after the last;
  returns the new turn holder's id. A turn holder who is not among the guessers (the
  master after setting the word, or a player who has left) is followed by the first
  guesser. With no eligible guesser the behaviour is undefined in the specification; the
  model throws, so that nothing is promised there.\<close>

definition room_updateNextTurn :: "RoomEntity \<Rightarrow> error + string \<times> RoomEntity" where
  "room_updateNextTurn r =
     (case guessers r of
        [] \<Rightarrow> Inl NoGuesserError
      | g # gs \<Rightarrow>
          (let t = (case next_after (currentTurn r) (g # gs) of Some n \<Rightarrow> n | None \<Rightarrow> g)
           in Inr (t, r\<lparr>currentTurn := t\<rparr>)))"


subsection \<open>Game service (room registry)\<close>

text \<open>Modelled from the spec: \<^verbatim>\<open>GameService.getRoomById\<close> (game.service.ts is not among the
  sources). Section 4.2: fails with \<open>RoomNotFoundError\<close> if the room is absent. The result
  is the reference to the room the registry owns, never a copy (section 9).\<close>

definition svc_getRoomById :: "string \<Rightarrow> string act" where
  "svc_getRoomById roomId s =
     (case rooms s roomId of
        None \<Rightarrow> (Inl RoomNotFoundError, s)
      | Some r \<Rightarrow> (Inr roomId, s))"

text \<open>Modelled from the spec: \<^verbatim>\<open>GameService.getReturningPlayer\<close> (game.service.ts is not among
  the sources). Section 4.2: returns the last saved record or none; does not mutate or
  expire the record.\<close>

definition svc_getReturningPlayer :: "string \<Rightarrow> (ReturningPlayer option) act" where
  "svc_getReturningPlayer userId s = (Inr (returningPlayers s userId), s)"

text \<open>Modelled from the spec: \<^verbatim>\<open>GameService.addPlayer\<close> (game.service.ts is not among the
  sources). Section 4.2: appends a new player at the end of the turn order; fails with
  \<open>RoomNotFoundError\<close> if the room is absent.\<close>

definition svc_addPlayer :: "string \<Rightarrow> string \<Rightarrow> string \<Rightarrow> nat \<Rightarrow> PlayerInfo act" where
  "svc_addPlayer roomId userId userName initialPoints =
     onRoom roomId (\<lambda>r.
       let p = \<lparr>player_id = userId, player_name = userName, points = initialPoints\<rparr>
       in Inr (p, r\<lparr>players := players r @ [p]\<rparr>))"

text \<open>Modelled from the spec: \<^verbatim>\<open>GameService.updateMaster\<close> (game.service.ts is not among the
  sources). Section 4.2: reassigns \<open>masterId\<close>.\<close>

definition svc_updateMaster :: "string \<Rightarrow> string \<Rightarrow> unit act" where
  "svc_updateMaster roomId playerId =
     onRoom roomId (\<lambda>r. Inr ((), r\<lparr>masterId := playerId\<rparr>))"

text \<open>Modelled from the spec: \<^verbatim>\<open>GameService.removePlayer\<close> (game.service.ts is not among the
  sources). Section 4.2: removes the player from the turn order; if \<open>save\<close> is true, records
  a \<open>ReturningPlayerRecord\<close> snapshot (points, was-master, round) under the user id; returns
  the removed player's last known info. The specification does not say what happens when
  the player is not in the room; the model throws \<open>PlayerNotFoundError\<close> and changes
  nothing.\<close>

definition svc_removePlayer :: "string \<Rightarrow> string \<Rightarrow> bool \<Rightarrow> ReturningPlayer act" where
  "svc_removePlayer roomId playerId save s =
     (case rooms s roomId of
        None \<Rightarrow> (Inl RoomNotFoundError, s)
      | Some r \<Rightarrow>
          (case find (\<lambda>p. player_id p = playerId) (players r) of
             None \<Rightarrow> (Inl PlayerNotFoundError, s)
           | Some p \<Rightarrow>
               (let snapshot = \<lparr>rp_roomId = roomId, rp_round = round r,
                                wasMaster = (masterId r = playerId), rp_player = p\<rparr>;
                    r' = r\<lparr>players := filter (\<lambda>q. player_id q \<noteq> playerId) (players r)\<rparr>
                in (Inr snapshot,
                    s\<lparr>rooms := (rooms s)(roomId \<mapsto> r'),
                      returningPlayers :=
                        (if save then (returningPlayers s)(playerId \<mapsto> snapshot)
                         else returningPlayers s)\<rparr>))))"

text \<open>Modelled from the spec: \<^verbatim>\<open>GameService.isPlayerInTurn\<close> (game.service.ts is not among the
  sources). Section 4.2: a query helper.\<close>

definition svc_isPlayerInTurn :: "string \<Rightarrow> string \<Rightarrow> bool act" where
  "svc_isPlayerInTurn roomId playerId =
     andThen (readRoom roomId) (\<lambda>r. ret (currentTurn r = playerId))"

text \<open>Modelled from the spec: \<^verbatim>\<open>GameService.updateNextTurn\<close> (game.service.ts is not among the
  sources): the room's \<open>updateNextTurn\<close>, on the room of that id.\<close>

definition svc_updateNextTurn :: "string \<Rightarrow> string act" where
  "svc_updateNextTurn roomId = onRoom roomId room_updateNextTurn"

text \<open>Modelled from the spec: \<^verbatim>\<open>GameService.checkGameFinished\<close> (game.service.ts is not among
  the sources). Sections 4.1 and 4.2: the word is complete when it is set and every
  letter's \<open>guessed\<close> flag is true; the credited player becomes \<open>FinishState.player\<close>; the
  finish state is produced once per completed word, and asking again returns none. With
  no credited player in the room there is no player to name, and none is returned.\<close>

definition svc_checkGameFinished :: "string \<Rightarrow> (FinishState option) act" where
  "svc_checkGameFinished roomId s =
     (case rooms s roomId of
        None \<Rightarrow> (Inl RoomNotFoundError, s)
      | Some r \<Rightarrow>
          (if currentWord r \<noteq> [] \<and> list_all guessed (currentWord r) \<and> \<not> finishReported r
           then (case creditedPlayer r of
                   None \<Rightarrow> (Inr None, s)
                 | Some u \<Rightarrow>
                     (case find (\<lambda>p. player_id p = u) (players r) of
                        None \<Rightarrow> (Inr None, s)
                      | Some p \<Rightarrow>
                          (Inr (Some \<lparr>fs_player = p, reason = WordCompleted\<rparr>),
                           s\<lparr>rooms := (rooms s)(roomId \<mapsto> r\<lparr>finishReported := True\<rparr>)\<rparr>)))
           else (Inr None, s)))"

subsection \<open>Gateway and guard\<close>

text \<open>Modelled from the spec: \<^verbatim>\<open>GameGateway\<close> (game.gateway.ts is not among the sources).
  Section 6: every method pushes its named event to the room's subscribers, fire and
  forget; the model appends the event to the trace.\<close>

definition broadcast :: "event \<Rightarrow> unit act" where
  "broadcast e s = (Inr (), s\<lparr>events := events s @ [e]\<rparr>)"

definition gw_join :: "string \<Rightarrow> PlayerInfo \<Rightarrow> unit act" where
  "gw_join roomId player = broadcast (PlayerJoined roomId player)"

definition gw_leaveRoom :: "string \<Rightarrow> ReturningPlayer \<Rightarrow> unit act" where
  "gw_leaveRoom roomId playerLeaving = broadcast (PlayerLeft roomId playerLeaving)"

definition gw_updateMaster :: "string \<Rightarrow> string \<Rightarrow> unit act" where
  "gw_updateMaster roomId playerId = broadcast (MasterChanged roomId playerId)"

definition gw_setWord :: "string \<Rightarrow> LetterInfo list \<Rightarrow> unit act" where
  "gw_setWord roomId word = broadcast (WordSet roomId word)"

definition gw_newGuess :: "string \<Rightarrow> GuessInfo \<Rightarrow> unit act" where
  "gw_newGuess roomId guessInfo = broadcast (NewGuess roomId guessInfo)"

definition gw_newTurn :: "string \<Rightarrow> string \<Rightarrow> unit act" where
  "gw_newTurn roomId playerId = broadcast (NewTurn roomId playerId)"

definition gw_finishGame :: "string \<Rightarrow> FinishState \<Rightarrow> unit act" where
  "gw_finishGame roomId finishState = broadcast (GameFinished roomId finishState)"

definition gw_updatePlayer :: "string \<Rightarrow> PlayerInfo \<Rightarrow> unit act" where
  "gw_updatePlayer roomId player = broadcast (PlayerUpdated roomId player)"


text \<open>Modelled from the spec: \<^verbatim>\<open>IsPlayerInTurnGuard\<close> (player-in-turn.guard.ts is not among
  the sources). Sections 2 and 7: verifies that the caller is the current turn holder
  before the handler runs; a rejection is \<open>NotTurnHolderError\<close>.\<close>

definition IsPlayerInTurnGuard :: "string \<Rightarrow> string \<Rightarrow> 'a act \<Rightarrow> 'a act" where
  "IsPlayerInTurnGuard userId roomId handler =
     andThen (svc_isPlayerInTurn roomId userId) (\<lambda>inTurn.
       if inTurn then handler else throw NotTurnHolderError)"

section \<open>The controller, from the source\<close>

text \<open>
  \<^verbatim>\<open>GameController\<close>, method by method. \<open>room\<close> is the reference \<open>getRoomById\<close> returns:
  a field read \<^verbatim>\<open>room.f\<close> reads the room as it is at that moment, a method call
  \<^verbatim>\<open>room.m(..)\<close> mutates the registry's room, and \<^verbatim>\<open>room.id\<close> is the reference itself.
  The logger is not modelled.
\<close>

text \<open>\<^verbatim>\<open>joinRoom\<close>, lines 53 to 81. \<^verbatim>\<open>returningPlayer?.roomId === roomId\<close> is false when there
  is no record.\<close>

definition joinRoom :: "string \<Rightarrow> string \<Rightarrow> string \<Rightarrow> PlayerInfo act" where
  "joinRoom roomId userName userId =
     andThen (svc_getReturningPlayer userId) (\<lambda>returningPlayer.
     let initialPoints =
           (case returningPlayer of
              None \<Rightarrow> 0
            | Some rp \<Rightarrow> if rp_roomId rp = roomId then points (rp_player rp) else 0)
     in
     andThen (svc_addPlayer roomId userId userName initialPoints) (\<lambda>player.
     andThen (gw_join roomId player) (\<lambda>_.
     andThen (svc_getRoomById roomId) (\<lambda>room.
     andThen (readRoom room) (\<lambda>r.
     andThen
       (if (case returningPlayer of
              None \<Rightarrow> False
            | Some rp \<Rightarrow> wasMaster rp \<and> round r = rp_round rp)
        then
          andThen (svc_updateMaster room (player_id player)) (\<lambda>_.
          andThen (gw_updateMaster room (player_id player)) (\<lambda>_.
          andThen (readRoom room) (\<lambda>r'.
          if currentWord r' = [] then
            andThen (onRoom room (\<lambda>q. Inr ((), q\<lparr>currentTurn := userId\<rparr>))) (\<lambda>_.
            gw_newTurn roomId userId)
          else ret ())))
        else ret ()) (\<lambda>_.
     ret player))))))"

text \<open>\<^verbatim>\<open>removePlayer\<close>, lines 83 to 93: the service is called with \<^verbatim>\<open>{save: false}\<close>.\<close>

definition removePlayer :: "string \<Rightarrow> string \<Rightarrow> PlayerInfo act" where
  "removePlayer roomId playerId =
     andThen (svc_removePlayer roomId playerId False) (\<lambda>playerLeaving.
     andThen (gw_leaveRoom roomId playerLeaving) (\<lambda>_.
     andThen (svc_isPlayerInTurn roomId playerId) (\<lambda>inTurn.
     andThen
       (if inTurn then
          andThen (svc_updateNextTurn roomId) (\<lambda>t. gw_newTurn roomId t)
        else ret ()) (\<lambda>_.
     ret (rp_player playerLeaving)))))"

text \<open>\<^verbatim>\<open>setWord\<close>, lines 97 to 104, and the request with its guard (line 96).\<close>

definition setWord :: "string \<Rightarrow> string \<Rightarrow> string act" where
  "setWord roomId word =
     andThen (svc_getRoomById roomId) (\<lambda>room.
     andThen (onRoom room (room_setWord word)) (\<lambda>_.
     andThen (readRoom room) (\<lambda>r.
     andThen (gw_setWord roomId (currentWord r)) (\<lambda>_.
     andThen (onRoom room room_updateNextTurn) (\<lambda>t.
     andThen (gw_newTurn roomId t) (\<lambda>_.
     ret word))))))"

definition setWord_request :: "string \<Rightarrow> string \<Rightarrow> string \<Rightarrow> string act" where
  "setWord_request callerId roomId word =
     IsPlayerInTurnGuard callerId roomId (setWord roomId word)"

text \<open>\<^verbatim>\<open>checkGameFinished\<close>, lines 125 to 139. \<^verbatim>\<open>map\<close> calls \<^verbatim>\<open>addGuess\<close> on every letter of
  the word, first to last, and only then \<^verbatim>\<open>forEach\<close> broadcasts the results.\<close>

definition checkGameFinished :: "string \<Rightarrow> bool act" where
  "checkGameFinished room =
     andThen (svc_checkGameFinished room) (\<lambda>finishState.
     case finishState of
       None \<Rightarrow> ret False
     | Some fs \<Rightarrow>
         andThen (readRoom room) (\<lambda>r.
         andThen (mapAct (\<lambda>l. onRoom room (room_addGuess (letter l))) (currentWord r)) (\<lambda>infos.
         andThen (forEachAct (\<lambda>guessInfo. gw_newGuess room guessInfo) infos) (\<lambda>_.
         andThen (gw_finishGame room fs) (\<lambda>_.
         andThen (gw_updatePlayer room (fs_player fs)) (\<lambda>_.
         ret True))))))"

text \<open>The message of the \<^verbatim>\<open>BadRequestException\<close> of line 113.\<close>

definition already_guessed :: "char \<Rightarrow> string" where
  "already_guessed c = ''Letter '' @ [CHR 0x22, c, CHR 0x22] @ '' already guessed''"

text \<open>\<^verbatim>\<open>newGuess\<close>, lines 108 to 123, and the request with its guard (line 107).\<close>

definition newGuess :: "string \<Rightarrow> char \<Rightarrow> GuessInfo act" where
  "newGuess roomId c =
     andThen (svc_getRoomById roomId) (\<lambda>room.
     andThen (readRoom room) (\<lambda>r.
     if room_checkGuessIsPresent c r then throw (BadRequestException (already_guessed c))
     else
       andThen (onRoom room (room_addGuess c)) (\<lambda>guessInfo.
       andThen (gw_newGuess roomId guessInfo) (\<lambda>_.
       andThen (checkGameFinished room) (\<lambda>finished.
       andThen
         (if \<not> finished then
            andThen (onRoom room room_updateNextTurn) (\<lambda>t. gw_newTurn room t)
          else ret ()) (\<lambda>_.
       ret guessInfo))))))"

definition newGuess_request :: "string \<Rightarrow> string \<Rightarrow> char \<Rightarrow> GuessInfo act" where
  "newGuess_request callerId roomId c =
     IsPlayerInTurnGuard callerId roomId (newGuess roomId c)"


section \<open>Example rooms\<close>

text \<open>Three players. In \<open>ex_room_cat\<close> Ann is the master, the word is "cat" with \<open>c\<close> and
  \<open>a\<close> found by Bob, who holds the turn.\<close>

definition ex_ann :: PlayerInfo where
  "ex_ann = \<lparr>player_id = ''ann'', player_name = ''Ann'', points = 5\<rparr>"

definition ex_bob :: PlayerInfo where
  "ex_bob = \<lparr>player_id = ''bob'', player_name = ''Bob'', points = 2\<rparr>"

definition ex_cy :: PlayerInfo where
  "ex_cy = \<lparr>player_id = ''cy'', player_name = ''Cy'', points = 0\<rparr>"

definition ex_room_cat :: RoomEntity where
  "ex_room_cat =
     \<lparr>round = 2, players = [ex_ann, ex_bob, ex_cy], masterId = ''ann'', currentTurn = ''bob'',
      currentWord = [\<lparr>letter = CHR ''c'', guessed = True\<rparr>,
                     \<lparr>letter = CHR ''a'', guessed = True\<rparr>,
                     \<lparr>letter = CHR ''t'', guessed = False\<rparr>],
      guessedLetters = {CHR ''c'', CHR ''a''},
      creditedPlayer = Some ''bob'', finishReported = False\<rparr>"

definition ex_world_cat :: world where
  "ex_world_cat =
     \<lparr>rooms = [''r1'' \<mapsto> ex_room_cat], returningPlayers = Map.empty, events = []\<rparr>"

text \<open>The room \<open>r1\<close> in round 2 with no word set, after Ann, its master, has left; the
  history holds Ann's record, saved for \<open>r1\<close> in \<open>ex_world_rejoin\<close> and for another room
  \<open>r0\<close> in \<open>ex_world_other\<close>.\<close>

definition ex_room_await :: RoomEntity where
  "ex_room_await =
     \<lparr>round = 2, players = [ex_bob, ex_cy], masterId = ''ann'', currentTurn = ''bob'',
      currentWord = [], guessedLetters = {},
      creditedPlayer = None, finishReported = False\<rparr>"

definition ex_world_rejoin :: world where
  "ex_world_rejoin =
     \<lparr>rooms = [''r1'' \<mapsto> ex_room_await],
      returningPlayers =
        [''ann'' \<mapsto> \<lparr>rp_roomId = ''r1'', rp_round = 2, wasMaster = True, rp_player = ex_ann\<rparr>],
      events = []\<rparr>"

definition ex_world_other :: world where
  "ex_world_other =
     \<lparr>rooms = [''r1'' \<mapsto> ex_room_await],
      returningPlayers =
        [''ann'' \<mapsto> \<lparr>rp_roomId = ''r0'', rp_round = 2, wasMaster = True, rp_player = ex_ann\<rparr>],
      events = []\<rparr>"

text \<open>A fresh room: Ann is the master and holds the turn, Bob has joined, no word is
  set.\<close>

definition ex_room_start :: RoomEntity where
  "ex_room_start =
     \<lparr>round = 0, players = [ex_ann, ex_bob], masterId = ''ann'', currentTurn = ''ann'',
      currentWord = [], guessedLetters = {},
      creditedPlayer = None, finishReported = False\<rparr>"

definition ex_world_start :: world where
  "ex_world_start =
     \<lparr>rooms = [''r1'' \<mapsto> ex_room_start], returningPlayers = Map.empty, events = []\<rparr>"

text \<open>The values the examples pass through: Bob's miss \<open>x\<close> on \<open>ex_room_cat\<close> with the
  room it leaves, his hit \<open>t\<close> with its finish state, and the room after Cy has guessed
  the whole word.\<close>

definition ex_gi_x :: GuessInfo where
  "ex_gi_x = \<lparr>guess_letter = CHR ''x'', hit = False, positions = [], guess_player = ''bob''\<rparr>"

definition ex_room_cat_x :: RoomEntity where
  "ex_room_cat_x = ex_room_cat\<lparr>guessedLetters := {CHR ''x'', CHR ''c'', CHR ''a''}\<rparr>"

definition ex_gi_t :: GuessInfo where
  "ex_gi_t = \<lparr>guess_letter = CHR ''t'', hit = True, positions = [2], guess_player = ''bob''\<rparr>"

definition ex_fs_bob :: FinishState where
  "ex_fs_bob = \<lparr>fs_player = ex_bob\<lparr>points := 3\<rparr>, reason = WordCompleted\<rparr>"

definition ex_room_cat_w :: RoomEntity where
  "ex_room_cat_w =
     ex_room_cat\<lparr>currentWord := [\<lparr>letter = CHR ''c'', guessed = True\<rparr>,
                                 \<lparr>letter = CHR ''a'', guessed = True\<rparr>,
                                 \<lparr>letter = CHR ''t'', guessed = True\<rparr>],
                 creditedPlayer := Some ''cy''\<rparr>"

text \<open>The fresh room with the turn at Bob, its only guesser; and \<open>ex_room_cat\<close> with a
  fourth player, Dan, and the turn at Cy.\<close>

definition ex_world_duo :: world where
  "ex_world_duo =
     \<lparr>rooms = [''r1'' \<mapsto> ex_room_start\<lparr>currentTurn := ''bob''\<rparr>],
      returningPlayers = Map.empty, events = []\<rparr>"

definition ex_dan :: PlayerInfo where
  "ex_dan = \<lparr>player_id = ''dan'', player_name = ''Dan'', points = 1\<rparr>"

definition ex_room_four :: RoomEntity where
  "ex_room_four = ex_room_cat\<lparr>players := [ex_ann, ex_bob, ex_cy, ex_dan], currentTurn := ''cy''\<rparr>"

definition ex_world_four :: world where
  "ex_world_four =
     \<lparr>rooms = [''r1'' \<mapsto> ex_room_four], returningPlayers = Map.empty, events = []\<rparr>"

section \<open>Running the collaborators\<close>

lemmas act_defs = ret_def throw_def andThen_def readRoom_def onRoom_def broadcast_def

lemmas ex_defs = ex_ann_def ex_bob_def ex_cy_def ex_room_cat_def ex_world_cat_def
  ex_room_await_def ex_world_rejoin_def ex_world_other_def ex_room_start_def ex_world_start_def
  ex_gi_x_def ex_room_cat_x_def ex_gi_t_def ex_fs_bob_def ex_room_cat_w_def
  ex_world_duo_def ex_dan_def ex_room_four_def ex_world_four_def

text \<open>Broadcasting a list of guess results appends them to the trace in list order.\<close>

lemma forEach_newGuess:
  "forEachAct (\<lambda>guessInfo. gw_newGuess room guessInfo) infos s =
     (Inr (), s\<lparr>events := events s @ map (NewGuess room) infos\<rparr>)"
  by (induction infos arbitrary: s) (simp_all add: act_defs gw_newGuess_def)

text \<open>What \<open>addGuess\<close> leaves alone, and what it does to the \<open>guessed\<close> flags.\<close>

lemma room_addGuess_facts:
  assumes "room_addGuess c r = Inr (gi, r')"
  shows "guess_letter gi = c" and "guess_player gi = currentTurn r"
    and "currentTurn r' = currentTurn r" and "masterId r' = masterId r"
    and "map letter (currentWord r') = map letter (currentWord r)"
    and "map player_id (players r') = map player_id (players r)"
    and "round r' = round r" and "finishReported r' = finishReported r"
  using assms by (auto simp: room_addGuess_def Let_def)




text \<open>The service's completion query: without a finish nothing changes; with one, the
  room is marked as reported.\<close>

lemma svc_checkGameFinished_None:
  assumes "fst (svc_checkGameFinished roomId s) = Inr None"
  shows "svc_checkGameFinished roomId s = (Inr None, s)"
  using assms
  by (auto simp: svc_checkGameFinished_def split: option.splits if_splits)



text \<open>The controller's \<^verbatim>\<open>checkGameFinished\<close> on both branches.\<close>

lemma checkGameFinished_None:
  assumes "fst (svc_checkGameFinished room s) = Inr None"
  shows "checkGameFinished room s = (Inr False, s)"
  using svc_checkGameFinished_None[OF assms]
  by (simp add: checkGameFinished_def andThen_def ret_def)


text \<open>\<^verbatim>\<open>newGuess\<close> up to the broadcast of the guess result.\<close>

lemma newGuess_prefix:
  assumes "rooms s roomId = Some r" and "c \<notin> guessedLetters r"
    and "room_addGuess c r = Inr (gi, r1)"
  shows "newGuess roomId c s =
     andThen (checkGameFinished roomId) (\<lambda>finished.
       andThen
         (if \<not> finished then
            andThen (onRoom roomId room_updateNextTurn) (\<lambda>t. gw_newTurn roomId t)
          else ret ()) (\<lambda>_.
       ret gi))
     (s\<lparr>rooms := (rooms s)(roomId \<mapsto> r1), events := events s @ [NewGuess roomId gi]\<rparr>)"
  using assms
  by (simp add: newGuess_def svc_getRoomById_def room_checkGuessIsPresent_def act_defs
      gw_newGuess_def)

text \<open>\<^verbatim>\<open>joinRoom\<close> and \<^verbatim>\<open>removePlayer\<close> in closed form on a room that exists.\<close>

lemma joinRoom_result:
  assumes "rooms s roomId = Some r"
  shows "joinRoom roomId userName userId s =
    (let pts = (case returningPlayers s userId of
                  None \<Rightarrow> 0
                | Some rp \<Rightarrow> if rp_roomId rp = roomId then points (rp_player rp) else 0);
         p = \<lparr>player_id = userId, player_name = userName, points = pts\<rparr>;
         takeover = (case returningPlayers s userId of
                       None \<Rightarrow> False
                     | Some rp \<Rightarrow> wasMaster rp \<and> round r = rp_round rp);
         r1 = r\<lparr>players := players r @ [p]\<rparr>
     in if takeover then
          (if currentWord r = [] then
             (Inr p, s\<lparr>rooms := (rooms s)(roomId \<mapsto> r1\<lparr>masterId := userId, currentTurn := userId\<rparr>),
                       events := events s @ [PlayerJoined roomId p, MasterChanged roomId userId,
                                             NewTurn roomId userId]\<rparr>)
           else
             (Inr p, s\<lparr>rooms := (rooms s)(roomId \<mapsto> r1\<lparr>masterId := userId\<rparr>),
                       events := events s @ [PlayerJoined roomId p, MasterChanged roomId userId]\<rparr>))
        else
          (Inr p, s\<lparr>rooms := (rooms s)(roomId \<mapsto> r1),
                    events := events s @ [PlayerJoined roomId p]\<rparr>))"
  using assms
  by (auto simp: joinRoom_def svc_getReturningPlayer_def svc_addPlayer_def gw_join_def
      svc_getRoomById_def svc_updateMaster_def gw_updateMaster_def gw_newTurn_def act_defs
      Let_def split: option.splits)

lemma removePlayer_result:
  assumes "rooms s roomId = Some r"
    and "find (\<lambda>p. player_id p = playerId) (players r) = Some p"
  shows "removePlayer roomId playerId s =
    (let snapshot = \<lparr>rp_roomId = roomId, rp_round = round r,
                     wasMaster = (masterId r = playerId), rp_player = p\<rparr>;
         r1 = r\<lparr>players := filter (\<lambda>q. player_id q \<noteq> playerId) (players r)\<rparr>
     in if currentTurn r = playerId then
          (case room_updateNextTurn r1 of
             Inl e \<Rightarrow> (Inl e, s\<lparr>rooms := (rooms s)(roomId \<mapsto> r1),
                                events := events s @ [PlayerLeft roomId snapshot]\<rparr>)
           | Inr (t, r2) \<Rightarrow>
               (Inr p, s\<lparr>rooms := (rooms s)(roomId \<mapsto> r2),
                         events := events s @ [PlayerLeft roomId snapshot, NewTurn roomId t]\<rparr>))
        else (Inr p, s\<lparr>rooms := (rooms s)(roomId \<mapsto> r1),
                       events := events s @ [PlayerLeft roomId snapshot]\<rparr>))"
  using assms
  by (simp add: removePlayer_def svc_removePlayer_def gw_leaveRoom_def svc_isPlayerInTurn_def
      svc_updateNextTurn_def gw_newTurn_def act_defs Let_def split: sum.splits)



lemma find_holds: "find P xs = Some x \<Longrightarrow> P x"
  by (induction xs) (auto split: if_splits)


text \<open>Awarding points to one player id, step by step.\<close>

lemma award_twice:
  "map (\<lambda>p. if player_id p = a then p\<lparr>points := points p + m\<rparr> else p)
     (map (\<lambda>p. if player_id p = a then p\<lparr>points := points p + n\<rparr> else p) ps) =
   map (\<lambda>p. if player_id p = a then p\<lparr>points := points p + (n + m)\<rparr> else p) ps"
  by (induction ps) auto

lemma award_none:
  "map (\<lambda>p. if player_id p = a then p\<lparr>points := points p + 0\<rparr> else p) ps = ps"
  by (induction ps) auto

lemma find_award:
  "find (\<lambda>q. player_id q = a)
     (map (\<lambda>p. if player_id p = b then p\<lparr>points := points p + n\<rparr> else p) ps) =
   map_option (\<lambda>p. if player_id p = b then p\<lparr>points := points p + n\<rparr> else p)
     (find (\<lambda>q. player_id q = a) ps)"
  by (induction ps) auto

text \<open>On a word whose letters are all guessed, \<open>addGuess\<close> on one of its letters changes
  no flag, is a hit at the letter's positions and awards their number.\<close>

lemma mark_revealed:
  assumes "list_all guessed w"
  shows "map (\<lambda>l. if letter l = x then l\<lparr>guessed := True\<rparr> else l) w = w"
  using assms by (induction w) auto

lemma occurs_positions:
  assumes "l \<in> set w"
  shows "filter (\<lambda>i. letter (w ! i) = letter l) [0..<length w] \<noteq> []"
proof -
  from assms obtain i where "i < length w" "w ! i = l" by (auto simp: in_set_conv_nth)
  then have "i \<in> set (filter (\<lambda>i. letter (w ! i) = letter l) [0..<length w])" by simp
  then show ?thesis by (metis empty_iff empty_set)
qed

lemma room_addGuess_revealed:
  assumes "list_all guessed w" and "l \<in> set w" and "currentWord q = w" and "currentTurn q = a"
  shows "room_addGuess (letter l) q =
     Inr (\<lparr>guess_letter = letter l, hit = True,
           positions = filter (\<lambda>i. letter (w ! i) = letter l) [0..<length w],
           guess_player = a\<rparr>,
          q\<lparr>guessedLetters := insert (letter l) (guessedLetters q),
            players := map (\<lambda>p. if player_id p = a
                                  then p\<lparr>points := points p +
                                     length (filter (\<lambda>i. letter (w ! i) = letter l) [0..<length w])\<rparr>
                                  else p) (players q),
            creditedPlayer := Some a\<rparr>)"
  using occurs_positions[OF assms(2)] mark_revealed[OF assms(1)] assms(3,4)
  by (simp add: room_addGuess_def Let_def)

text \<open>The loop of \<^verbatim>\<open>checkGameFinished\<close> on such a word, first as a fold over the letters,
  then in closed form.\<close>

lemma reveal_letters_fold:
  assumes "rooms s room = Some q" and "list_all guessed w" and "set ls \<subseteq> set w"
    and "currentWord q = w" and "currentTurn q = a"
  shows "mapAct (\<lambda>l. onRoom room (room_addGuess (letter l))) ls s =
     (Inr (map (\<lambda>l. \<lparr>guess_letter = letter l, hit = True,
                       positions = filter (\<lambda>i. letter (w ! i) = letter l) [0..<length w],
                       guess_player = a\<rparr>) ls),
      s\<lparr>rooms := (rooms s)(room \<mapsto>
          fold (\<lambda>l q. q\<lparr>guessedLetters := insert (letter l) (guessedLetters q),
                       players := map (\<lambda>p. if player_id p = a
                                  then p\<lparr>points := points p +
                                     length (filter (\<lambda>i. letter (w ! i) = letter l) [0..<length w])\<rparr>
                                  else p) (players q),
                       creditedPlayer := Some a\<rparr>) ls q)\<rparr>)"
  using assms
proof (induction ls arbitrary: s q)
  case Nil
  have b: "(rooms s)(room \<mapsto> q) = rooms s" using Nil.prems(1) by (simp add: fun_upd_idem)
  show ?case by (simp add: ret_def b)
next
  case (Cons l ls)
  let ?q1 = "q\<lparr>guessedLetters := insert (letter l) (guessedLetters q),
            players := map (\<lambda>p. if player_id p = a
                                  then p\<lparr>points := points p +
                                     length (filter (\<lambda>i. letter (w ! i) = letter l) [0..<length w])\<rparr>
                                  else p) (players q),
            creditedPlayer := Some a\<rparr>"
  let ?s1 = "s\<lparr>rooms := (rooms s)(room \<mapsto> ?q1)\<rparr>"
  have l: "l \<in> set w" using Cons.prems(3) by simp
  have step: "onRoom room (room_addGuess (letter l)) s =
      (Inr \<lparr>guess_letter = letter l, hit = True,
            positions = filter (\<lambda>i. letter (w ! i) = letter l) [0..<length w],
            guess_player = a\<rparr>, ?s1)"
    using Cons.prems(1) room_addGuess_revealed[OF Cons.prems(2) l Cons.prems(4,5)]
    by (simp add: onRoom_def)
  have q1: "rooms ?s1 room = Some ?q1" by simp
  have sub: "set ls \<subseteq> set w" using Cons.prems(3) by simp
  have cw: "currentWord ?q1 = w" using Cons.prems(4) by simp
  have ct: "currentTurn ?q1 = a" using Cons.prems(5) by simp
  note ih = Cons.IH[OF q1 Cons.prems(2) sub cw ct]
  have upd: "?s1\<lparr>rooms := (rooms ?s1)(room \<mapsto> X)\<rparr> = s\<lparr>rooms := (rooms s)(room \<mapsto> X)\<rparr>" for X
    by simp
  show ?case
    by (simp only: mapAct.simps andThen_def step prod.case sum.case ih upd ret_def
        fold_simps o_apply list.map)
qed

lemma reveal_fold_closed:
  "fold (\<lambda>l q. q\<lparr>guessedLetters := insert (letter l) (guessedLetters q),
                 players := map (\<lambda>p. if player_id p = a
                            then p\<lparr>points := points p + f l\<rparr> else p) (players q),
                 creditedPlayer := Some a\<rparr>) ls q =
   q\<lparr>guessedLetters := letter ` set ls \<union> guessedLetters q,
     players := map (\<lambda>p. if player_id p = a
                            then p\<lparr>points := points p + sum_list (map f ls)\<rparr> else p) (players q),
     creditedPlayer := (if ls = [] then creditedPlayer q else Some a)\<rparr>"
proof (induction ls arbitrary: q)
  case Nil
  show ?case by (simp add: award_none cong: if_cong)
next
  case (Cons l ls)
  show ?case
    by (simp add: Cons.IH award_twice add.assoc cong: if_cong)
qed

lemma reveal_letters:
  assumes "rooms s room = Some q" and "list_all guessed w" and "set ls \<subseteq> set w"
    and "currentWord q = w" and "currentTurn q = a"
  shows "mapAct (\<lambda>l. onRoom room (room_addGuess (letter l))) ls s =
     (Inr (map (\<lambda>l. \<lparr>guess_letter = letter l, hit = True,
                       positions = filter (\<lambda>i. letter (w ! i) = letter l) [0..<length w],
                       guess_player = a\<rparr>) ls),
      s\<lparr>rooms := (rooms s)(room \<mapsto>
          q\<lparr>guessedLetters := letter ` set ls \<union> guessedLetters q,
            players := map (\<lambda>p. if player_id p = a
                                  then p\<lparr>points := points p +
                                    sum_list (map (\<lambda>l. length (filter (\<lambda>i. letter (w ! i) = letter l)
                                               [0..<length w])) ls)\<rparr>
                                  else p) (players q),
            creditedPlayer := (if ls = [] then creditedPlayer q else Some a)\<rparr>)\<rparr>)"
  unfolding reveal_letters_fold[OF assms]
    reveal_fold_closed[of a "\<lambda>l. length (filter (\<lambda>i. letter (w ! i) = letter l) [0..<length w])"]
  by (rule refl)

text \<open>Marking every letter changes no letter and no position; a guess that completes the
  word marks exactly the letters that were missing, and it is a hit.\<close>

lemma positions_marked:
  "filter (\<lambda>i. letter (map (\<lambda>l. l\<lparr>guessed := True\<rparr>) w ! i) = x)
     [0..<length (map (\<lambda>l. l\<lparr>guessed := True\<rparr>) w)] =
   filter (\<lambda>i. letter (w ! i) = x) [0..<length w]"
  by (rule filter_cong) simp_all

lemma mark_completing:
  assumes "list_all (\<lambda>l. guessed l \<or> letter l = c) w"
  shows "map (\<lambda>l. if letter l = c then l\<lparr>guessed := True\<rparr> else l) w =
         map (\<lambda>l. l\<lparr>guessed := True\<rparr>) w"
  using assms by (induction w) auto

lemma completing_hits:
  assumes "\<not> list_all guessed w" and "list_all (\<lambda>l. guessed l \<or> letter l = c) w"
  shows "filter (\<lambda>i. letter (w ! i) = c) [0..<length w] \<noteq> []"
proof -
  from assms obtain l where l: "l \<in> set w" "letter l = c"
    by (auto simp: list_all_iff)
  from occurs_positions[OF l(1)] l(2) show ?thesis by simp
qed

text \<open>The finish sequence of \<^verbatim>\<open>checkGameFinished\<close> in closed form, on a room whose word
  has just been completed and whose finish is not yet reported.\<close>

lemma finish_sequence:
  assumes "rooms s room = Some q"
    and "currentWord q = map (\<lambda>l. l\<lparr>guessed := True\<rparr>) w" and "w \<noteq> []"
    and "\<not> finishReported q"
    and "creditedPlayer q = Some u"
    and "find (\<lambda>p. player_id p = u) (players q) = Some winner"
  shows "checkGameFinished room s =
     (Inr True,
      s\<lparr>rooms := (rooms s)(room \<mapsto>
           q\<lparr>players := map (\<lambda>p. if player_id p = currentTurn q
                                  then p\<lparr>points := points p +
                                    sum_list (map (\<lambda>l. length (filter (\<lambda>i. letter (w ! i) = letter l)
                                               [0..<length w])) w)\<rparr>
                                  else p) (players q),
             guessedLetters := letter ` set w \<union> guessedLetters q,
             creditedPlayer := Some (currentTurn q),
             finishReported := True\<rparr>),
         events := events s
           @ map (NewGuess room)
               (map (\<lambda>l. \<lparr>guess_letter = letter l, hit = True,
                           positions = filter (\<lambda>i. letter (w ! i) = letter l) [0..<length w],
                           guess_player = currentTurn q\<rparr>) w)
           @ [GameFinished room \<lparr>fs_player = winner, reason = WordCompleted\<rparr>,
              PlayerUpdated room winner]\<rparr>)"
proof -
  let ?w2 = "map (\<lambda>l. l\<lparr>guessed := True\<rparr>) w"
  let ?q2 = "q\<lparr>finishReported := True\<rparr>"
  let ?s2 = "s\<lparr>rooms := (rooms s)(room \<mapsto> ?q2)\<rparr>"
  have all: "list_all guessed ?w2" by (simp add: list_all_iff)
  have svc: "svc_checkGameFinished room s =
      (Inr (Some \<lparr>fs_player = winner, reason = WordCompleted\<rparr>), ?s2)"
    using assms all by (simp add: svc_checkGameFinished_def)
  have q2: "rooms ?s2 room = Some ?q2" by simp
  have cw: "currentWord ?q2 = ?w2" using assms(2) by simp
  have ct: "currentTurn ?q2 = currentTurn q" by simp
  note loop = reveal_letters[OF q2 all subset_refl cw ct]
  have infos: "map (\<lambda>l. \<lparr>guess_letter = letter l, hit = True,
                       positions = filter (\<lambda>i. letter (?w2 ! i) = letter l) [0..<length ?w2],
                       guess_player = currentTurn q\<rparr>) ?w2 =
               map (\<lambda>l. \<lparr>guess_letter = letter l, hit = True,
                       positions = filter (\<lambda>i. letter (w ! i) = letter l) [0..<length w],
                       guess_player = currentTurn q\<rparr>) w"
    unfolding positions_marked by (simp add: o_def)
  have total: "sum_list (map (\<lambda>l. length (filter (\<lambda>i. letter (?w2 ! i) = letter l) [0..<length ?w2])) ?w2) =
               sum_list (map (\<lambda>l. length (filter (\<lambda>i. letter (w ! i) = letter l) [0..<length w])) w)"
    unfolding positions_marked by (simp add: o_def)
  have letters: "letter ` set ?w2 = letter ` set w" by (simp add: image_image)
  have ne: "(?w2 = []) = False" using assms(3) by simp
  have room_eq:
    "?q2\<lparr>guessedLetters := letter ` set ?w2 \<union> guessedLetters ?q2,
         players := map (\<lambda>p. if player_id p = currentTurn q
                                  then p\<lparr>points := points p +
                                    sum_list (map (\<lambda>l. length (filter (\<lambda>i. letter (?w2 ! i) = letter l)
                                               [0..<length ?w2])) ?w2)\<rparr>
                                  else p) (players ?q2),
         creditedPlayer := (if ?w2 = [] then creditedPlayer ?q2 else Some (currentTurn q))\<rparr> =
     q\<lparr>players := map (\<lambda>p. if player_id p = currentTurn q
                                  then p\<lparr>points := points p +
                                    sum_list (map (\<lambda>l. length (filter (\<lambda>i. letter (w ! i) = letter l)
                                               [0..<length w])) w)\<rparr>
                                  else p) (players q),
             guessedLetters := letter ` set w \<union> guessedLetters q,
             creditedPlayer := Some (currentTurn q),
             finishReported := True\<rparr>"
    unfolding total letters ne by simp
  have upd: "?s2\<lparr>rooms := (rooms ?s2)(room \<mapsto> X)\<rparr> = s\<lparr>rooms := (rooms s)(room \<mapsto> X)\<rparr>" for X
    by simp
  have read: "readRoom room ?s2 = (Inr ?q2, ?s2)" by (simp add: readRoom_def)
  show ?thesis
    unfolding checkGameFinished_def andThen_def svc prod.case sum.case option.case read cw
      loop infos room_eq upd forEach_newGuess gw_finishGame_def gw_updatePlayer_def broadcast_def
      ret_def
    by simp
qed




text \<open>The guard of \<^verbatim>\<open>setWord\<close>, and a word the room refuses.\<close>

lemma setWord_request_guard:
  assumes "rooms s roomId = Some r"
  shows "setWord_request callerId roomId word s =
     (if currentTurn r = callerId then setWord roomId word s else (Inl NotTurnHolderError, s))"
  using assms
  by (simp add: setWord_request_def IsPlayerInTurnGuard_def svc_isPlayerInTurn_def act_defs)

lemma setWord_rejected:
  assumes "rooms s roomId = Some r" and "room_setWord word r = Inl e"
  shows "setWord roomId word s = (Inl e, s)"
  using assms by (simp add: setWord_def svc_getRoomById_def act_defs)


section \<open>The claims\<close>

text \<open>
  C1. A letter guess that completes the word: the room exists, the letter is new, the
  word is not yet complete and every letter still missing is the guessed one; no finish
  has been handed out for this word, and the turn holder is a player of the room. Then
  the request returns the guess result, a hit at the letter's positions, and it has
  broadcast, in this order: the guess; for every letter of the word, first to last, the
  result of \<open>addGuess\<close> on that letter (a hit at the letter's positions, by the turn holder),
  which covers every letter there is to reveal; the finish event naming the turn holder
  with the points of the guess; and that player. No new-turn event is broadcast. The room
  is left with every letter guessed, the letters of the word among the letters tried,
  the points of all these guesses awarded to the turn holder, the finish reported, and
  the turn holder unchanged.
\<close>

theorem newGuess_finishing:
  assumes "rooms s roomId = Some r"
    and "c \<notin> guessedLetters r"
    and "\<not> list_all guessed (currentWord r)"
    and "list_all (\<lambda>l. guessed l \<or> letter l = c) (currentWord r)"
    and "\<not> finishReported r"
    and "find (\<lambda>q. player_id q = currentTurn r) (players r) = Some p"
  shows "newGuess roomId c s =
    (let w = currentWord r;
         pos = (\<lambda>x. filter (\<lambda>i. letter (w ! i) = x) [0..<length w]);
         gi = \<lparr>guess_letter = c, hit = True, positions = pos c, guess_player = currentTurn r\<rparr>;
         infos = map (\<lambda>l. \<lparr>guess_letter = letter l, hit = True, positions = pos (letter l),
                             guess_player = currentTurn r\<rparr>) w;
         winner = p\<lparr>points := points p + length (pos c)\<rparr>;
         r' = r\<lparr>players := map (\<lambda>q. if player_id q = currentTurn r
                                     then q\<lparr>points := points q +
                                       (length (pos c) + sum_list (map (\<lambda>l. length (pos (letter l))) w))\<rparr>
                                     else q) (players r),
                currentWord := map (\<lambda>l. l\<lparr>guessed := True\<rparr>) w,
                guessedLetters := letter ` set w \<union> insert c (guessedLetters r),
                creditedPlayer := Some (currentTurn r),
                finishReported := True\<rparr>
     in (Inr gi,
         s\<lparr>rooms := (rooms s)(roomId \<mapsto> r'),
           events := events s @ [NewGuess roomId gi] @ map (NewGuess roomId) infos
                     @ [GameFinished roomId \<lparr>fs_player = winner, reason = WordCompleted\<rparr>,
                        PlayerUpdated roomId winner]\<rparr>))"
proof -
  let ?w = "currentWord r"
  let ?pos = "\<lambda>x. filter (\<lambda>i. letter (?w ! i) = x) [0..<length ?w]"
  let ?gi = "\<lparr>guess_letter = c, hit = True, positions = ?pos c, guess_player = currentTurn r\<rparr>"
  let ?r1 = "r\<lparr>currentWord := map (\<lambda>l. l\<lparr>guessed := True\<rparr>) ?w,
               guessedLetters := insert c (guessedLetters r),
               players := map (\<lambda>q. if player_id q = currentTurn r
                                     then q\<lparr>points := points q + length (?pos c)\<rparr> else q) (players r),
               creditedPlayer := Some (currentTurn r)\<rparr>"
  let ?winner = "p\<lparr>points := points p + length (?pos c)\<rparr>"
  let ?s1 = "s\<lparr>rooms := (rooms s)(roomId \<mapsto> ?r1), events := events s @ [NewGuess roomId ?gi]\<rparr>"
  have hits: "?pos c \<noteq> []" using completing_hits[OF assms(3,4)] .
  have guess: "room_addGuess c r = Inr (?gi, ?r1)"
    using hits mark_completing[OF assms(4)] by (simp add: room_addGuess_def Let_def)
  have ne: "?w \<noteq> []" using assms(3) by auto
  have r1: "rooms ?s1 roomId = Some ?r1" by simp
  have cw: "currentWord ?r1 = map (\<lambda>l. l\<lparr>guessed := True\<rparr>) ?w" by simp
  have nr: "\<not> finishReported ?r1" using assms(5) by simp
  have cr: "creditedPlayer ?r1 = Some (currentTurn r)" by simp
  have win: "find (\<lambda>q. player_id q = currentTurn r) (players ?r1) = Some ?winner"
    using assms(6) find_holds[OF assms(6)] by (simp add: find_award)
  note fin = finish_sequence[OF r1 cw ne nr cr win]
  have room_eq:
    "?r1\<lparr>players := map (\<lambda>p. if player_id p = currentTurn ?r1
                                  then p\<lparr>points := points p +
                                    sum_list (map (\<lambda>l. length (filter (\<lambda>i. letter (?w ! i) = letter l)
                                               [0..<length ?w])) ?w)\<rparr>
                                  else p) (players ?r1),
             guessedLetters := letter ` set ?w \<union> guessedLetters ?r1,
             creditedPlayer := Some (currentTurn ?r1),
             finishReported := True\<rparr> =
     r\<lparr>players := map (\<lambda>q. if player_id q = currentTurn r
                                     then q\<lparr>points := points q +
                                       (length (?pos c) + sum_list (map (\<lambda>l. length (?pos (letter l))) ?w))\<rparr>
                                     else q) (players r),
                currentWord := map (\<lambda>l. l\<lparr>guessed := True\<rparr>) ?w,
                guessedLetters := letter ` set ?w \<union> insert c (guessedLetters r),
                creditedPlayer := Some (currentTurn r),
                finishReported := True\<rparr>"
    by (simp add: award_twice)
  have ct: "currentTurn ?r1 = currentTurn r" by simp
  have upd: "?s1\<lparr>rooms := (rooms ?s1)(roomId \<mapsto> X), events := events ?s1 @ E\<rparr> =
             s\<lparr>rooms := (rooms s)(roomId \<mapsto> X), events := events s @ [NewGuess roomId ?gi] @ E\<rparr>" for X E
    by simp
  show ?thesis
    unfolding newGuess_prefix[OF assms(1,2) guess] Let_def andThen_def fin room_eq upd
    by (simp add: ret_def)
qed

text \<open>Bob's \<open>t\<close> completes "cat".\<close>

theorem newGuess_finishing_witness:
  "rooms ex_world_cat ''r1'' = Some ex_room_cat
   \<and> CHR ''t'' \<notin> guessedLetters ex_room_cat
   \<and> \<not> list_all guessed (currentWord ex_room_cat)
   \<and> list_all (\<lambda>l. guessed l \<or> letter l = CHR ''t'') (currentWord ex_room_cat)
   \<and> \<not> finishReported ex_room_cat
   \<and> find (\<lambda>q. player_id q = currentTurn ex_room_cat) (players ex_room_cat) = Some ex_bob
   \<and> fst (newGuess ''r1'' (CHR ''t'') ex_world_cat) = Inr ex_gi_t
   \<and> events (snd (newGuess ''r1'' (CHR ''t'') ex_world_cat)) =
       [NewGuess ''r1'' ex_gi_t,
        NewGuess ''r1'' \<lparr>guess_letter = CHR ''c'', hit = True, positions = [0], guess_player = ''bob''\<rparr>,
        NewGuess ''r1'' \<lparr>guess_letter = CHR ''a'', hit = True, positions = [1], guess_player = ''bob''\<rparr>,
        NewGuess ''r1'' \<lparr>guess_letter = CHR ''t'', hit = True, positions = [2], guess_player = ''bob''\<rparr>,
        GameFinished ''r1'' ex_fs_bob,
        PlayerUpdated ''r1'' (fs_player ex_fs_bob)]
   \<and> map_option currentTurn (rooms (snd (newGuess ''r1'' (CHR ''t'') ex_world_cat)) ''r1'') = Some ''bob''
   \<and> map_option (map guessed \<circ> currentWord)
        (rooms (snd (newGuess ''r1'' (CHR ''t'') ex_world_cat)) ''r1'') = Some [True, True, True]"
proof -
  have h1: "rooms ex_world_cat ''r1'' = Some ex_room_cat" by (simp add: ex_world_cat_def)
  have h2: "CHR ''t'' \<notin> guessedLetters ex_room_cat" by (simp add: ex_room_cat_def)
  have h3: "\<not> list_all guessed (currentWord ex_room_cat)" by (simp add: ex_room_cat_def)
  have h4: "list_all (\<lambda>l. guessed l \<or> letter l = CHR ''t'') (currentWord ex_room_cat)"
    by (simp add: ex_room_cat_def)
  have h5: "\<not> finishReported ex_room_cat" by (simp add: ex_room_cat_def)
  have h6: "find (\<lambda>q. player_id q = currentTurn ex_room_cat) (players ex_room_cat) = Some ex_bob"
    by (simp add: ex_defs)
  show ?thesis
    using h1 h2 h3 h4 h5 h6 newGuess_finishing[OF h1 h2 h3 h4 h5 h6]
    by (simp add: Let_def ex_defs)
qed

text \<open>
  C2. A letter guess whose letter is already in \<open>guessedLetters\<close> of an existing room
  is rejected with the bad-request exception of line 113 and the state is exactly what
  it was: no guess applied, no point, no turn advance, no broadcast. The guarded request
  is rejected likewise, with the same exception when the caller holds the turn.
\<close>

theorem newGuess_duplicate_rejected:
  assumes "rooms s roomId = Some r" and "c \<in> guessedLetters r"
  shows "newGuess roomId c s = (Inl (BadRequestException (already_guessed c)), s)
       \<and> newGuess_request callerId roomId c s =
           (Inl (if currentTurn r = callerId then BadRequestException (already_guessed c)
                 else NotTurnHolderError), s)"
  using assms
  by (simp add: newGuess_def newGuess_request_def IsPlayerInTurnGuard_def svc_isPlayerInTurn_def
      svc_getRoomById_def room_checkGuessIsPresent_def act_defs)

text \<open>Bob guesses \<open>a\<close> again.\<close>

theorem newGuess_duplicate_rejected_witness:
  "rooms ex_world_cat ''r1'' = Some ex_room_cat
   \<and> CHR ''a'' \<in> guessedLetters ex_room_cat
   \<and> newGuess ''r1'' (CHR ''a'') ex_world_cat =
        (Inl (BadRequestException (already_guessed (CHR ''a''))), ex_world_cat)
   \<and> newGuess_request ''bob'' ''r1'' (CHR ''a'') ex_world_cat =
        (Inl (BadRequestException (already_guessed (CHR ''a''))), ex_world_cat)"
proof -
  have h1: "rooms ex_world_cat ''r1'' = Some ex_room_cat" by (simp add: ex_world_cat_def)
  have h2: "CHR ''a'' \<in> guessedLetters ex_room_cat" by (simp add: ex_room_cat_def)
  have h3: "currentTurn ex_room_cat = ''bob''" by (simp add: ex_room_cat_def)
  show ?thesis
    using h1 h2 h3 newGuess_duplicate_rejected[OF h1 h2, of "''bob''"] by simp
qed

text \<open>
  C3, as amended. The set-word request succeeds only when the caller holds the current
  turn (line 96 puts the turn-holder guard on the endpoint, not the master guard), the
  room is in the state \<open>AwaitingWord\<close> and the word is non-empty and alphabetic; a request
  that fails one of these is rejected and the state is what it was.
\<close>

theorem setWord_request_accepts_only:
  "(\<forall>w s'. setWord_request callerId roomId word s = (Inr w, s') \<longrightarrow>
      (\<exists>r. rooms s roomId = Some r \<and> currentTurn r = callerId \<and> currentWord r = []
          \<and> word \<noteq> [] \<and> list_all is_alpha word))
   \<and> (\<not> (\<exists>r. rooms s roomId = Some r \<and> currentTurn r = callerId \<and> currentWord r = []
          \<and> word \<noteq> [] \<and> list_all is_alpha word) \<longrightarrow>
      (\<exists>e. setWord_request callerId roomId word s = (Inl e, s)))"
proof -
  have rej: "\<exists>e. setWord_request callerId roomId word s = (Inl e, s)"
    if n: "\<not> (\<exists>r. rooms s roomId = Some r \<and> currentTurn r = callerId \<and> currentWord r = []
          \<and> word \<noteq> [] \<and> list_all is_alpha word)"
  proof (cases "rooms s roomId")
    case None
    then show ?thesis
      by (simp add: setWord_request_def IsPlayerInTurnGuard_def svc_isPlayerInTurn_def act_defs)
  next
    case (Some r)
    show ?thesis
    proof (cases "currentTurn r = callerId")
      case False
      then show ?thesis by (simp add: setWord_request_guard[OF Some])
    next
      case True
      with n Some have "currentWord r \<noteq> [] \<or> word = [] \<or> \<not> list_all is_alpha word" by simp
      then have "\<exists>e. room_setWord word r = Inl e"
        by (auto simp: room_setWord_def)
      then obtain e where "room_setWord word r = Inl e" ..
      from setWord_rejected[OF Some this] True show ?thesis
        by (simp add: setWord_request_guard[OF Some])
    qed
  qed
  then show ?thesis by fastforce
qed

text \<open>In the fresh room Ann, who holds the turn, sets "cat"; Bob, who does not, is
  rejected, and so is Ann's "c4t".\<close>

theorem setWord_request_accepts_only_witness:
  "fst (setWord_request ''ann'' ''r1'' ''cat'' ex_world_start) = Inr ''cat''
   \<and> (\<exists>r. rooms ex_world_start ''r1'' = Some r \<and> currentTurn r = ''ann'' \<and> currentWord r = []
          \<and> ''cat'' \<noteq> [] \<and> list_all is_alpha ''cat'')
   \<and> (\<exists>e. setWord_request ''bob'' ''r1'' ''cat'' ex_world_start = (Inl e, ex_world_start))
   \<and> (\<exists>e. setWord_request ''ann'' ''r1'' ''c4t'' ex_world_start = (Inl e, ex_world_start))"
proof -
  have ok: "fst (setWord_request ''ann'' ''r1'' ''cat'' ex_world_start) = Inr ''cat''"
    by (simp add: setWord_request_def IsPlayerInTurnGuard_def setWord_def svc_getRoomById_def
      room_setWord_def is_alpha_def gw_setWord_def svc_isPlayerInTurn_def
      room_updateNextTurn_def guessers_def gw_newTurn_def act_defs Let_def ex_defs)
  then have ok': "setWord_request ''ann'' ''r1'' ''cat'' ex_world_start =
      (Inr ''cat'', snd (setWord_request ''ann'' ''r1'' ''cat'' ex_world_start))"
    by (metis prod.collapse)
  have n1: "\<not> (\<exists>r. rooms ex_world_start ''r1'' = Some r \<and> currentTurn r = ''bob''
          \<and> currentWord r = [] \<and> ''cat'' \<noteq> [] \<and> list_all is_alpha ''cat'')"
    by (simp add: ex_defs)
  have n2: "\<not> (\<exists>r. rooms ex_world_start ''r1'' = Some r \<and> currentTurn r = ''ann''
          \<and> currentWord r = [] \<and> ''c4t'' \<noteq> [] \<and> list_all is_alpha ''c4t'')"
    by (simp add: ex_defs is_alpha_def)
  note a = setWord_request_accepts_only[of "''ann''" "''r1''" "''cat''" ex_world_start]
  note b = setWord_request_accepts_only[of "''bob''" "''r1''" "''cat''" ex_world_start]
  note c = setWord_request_accepts_only[of "''ann''" "''r1''" "''c4t''" ex_world_start]
  from a ok' have p1: "\<exists>r. rooms ex_world_start ''r1'' = Some r \<and> currentTurn r = ''ann''
          \<and> currentWord r = [] \<and> ''cat'' \<noteq> [] \<and> list_all is_alpha ''cat''" by blast
  from b n1 have p2: "\<exists>e. setWord_request ''bob'' ''r1'' ''cat'' ex_world_start = (Inl e, ex_world_start)"
    by blast
  from c n2 have p3: "\<exists>e. setWord_request ''ann'' ''r1'' ''c4t'' ex_world_start = (Inl e, ex_world_start)"
    by blast
  show ?thesis using ok p1 p2 p3 by blast
qed

text \<open>
  C3 as stated fails: in the fresh room Ann, master and turn holder, is removed (lines 83
  to 93); the turn passes to Bob, the next eligible guesser, who is not the master; Bob's
  set-word request then succeeds.
\<close>

theorem setWord_request_counterexample:
  "fst (setWord_request ''bob'' ''r1'' ''cat'' (snd (removePlayer ''r1'' ''ann'' ex_world_start)))
     = Inr ''cat''
   \<and> map_option masterId (rooms (snd (removePlayer ''r1'' ''ann'' ex_world_start)) ''r1'')
     = Some ''ann''
   \<and> map_option currentTurn (rooms (snd (removePlayer ''r1'' ''ann'' ex_world_start)) ''r1'')
     = Some ''bob''"
  by (simp add: setWord_request_def IsPlayerInTurnGuard_def setWord_def svc_getRoomById_def
      room_setWord_def is_alpha_def gw_setWord_def
      removePlayer_def svc_removePlayer_def gw_leaveRoom_def svc_isPlayerInTurn_def
      svc_updateNextTurn_def room_updateNextTurn_def guessers_def gw_newTurn_def act_defs
      Let_def ex_defs)

text \<open>
  C4. A letter guess that is new and does not finish the word, in a room with an eligible
  guesser: the final state is the one reached by applying the guess to the room,
  broadcasting the guess result, advancing the turn once on the room the guess left, and
  broadcasting the new turn holder, in this order. The guess is credited to the turn
  holder from before the advance, and the advance changes neither the word nor the
  players.
\<close>

theorem newGuess_order:
  assumes "rooms s roomId = Some r" and "c \<notin> guessedLetters r"
    and "room_addGuess c r = Inr (gi, r1)"
    and "fst (svc_checkGameFinished roomId
               (s\<lparr>rooms := (rooms s)(roomId \<mapsto> r1),
                  events := events s @ [NewGuess roomId gi]\<rparr>)) = Inr None"
    and "room_updateNextTurn r1 = Inr (t, r2)"
  shows "newGuess roomId c s =
           (Inr gi,
            s\<lparr>rooms := (rooms s)(roomId \<mapsto> r2),
              events := events s @ [NewGuess roomId gi, NewTurn roomId t]\<rparr>)
       \<and> guess_player gi = currentTurn r \<and> currentTurn r2 = t
       \<and> currentWord r2 = currentWord r1 \<and> players r2 = players r1"
proof -
  let ?s1 = "s\<lparr>rooms := (rooms s)(roomId \<mapsto> r1), events := events s @ [NewGuess roomId gi]\<rparr>"
  have fin: "checkGameFinished roomId ?s1 = (Inr False, ?s1)"
    using assms(4) by (rule checkGameFinished_None)
  have run: "newGuess roomId c s =
           (Inr gi,
            s\<lparr>rooms := (rooms s)(roomId \<mapsto> r2),
              events := events s @ [NewGuess roomId gi, NewTurn roomId t]\<rparr>)"
    unfolding newGuess_prefix[OF assms(1,2,3)]
    using fin assms(5) by (simp add: act_defs gw_newTurn_def)
  have "currentTurn r2 = t" "currentWord r2 = currentWord r1" "players r2 = players r1"
    using assms(5) by (auto simp: room_updateNextTurn_def Let_def split: list.splits)
  then show ?thesis using run room_addGuess_facts(2)[OF assms(3)] by simp
qed

text \<open>Bob's \<open>x\<close> misses; the turn passes to Cy.\<close>

theorem newGuess_order_witness:
  "rooms ex_world_cat ''r1'' = Some ex_room_cat
   \<and> CHR ''x'' \<notin> guessedLetters ex_room_cat
   \<and> room_addGuess (CHR ''x'') ex_room_cat = Inr (ex_gi_x, ex_room_cat_x)
   \<and> room_updateNextTurn ex_room_cat_x = Inr (''cy'', ex_room_cat_x\<lparr>currentTurn := ''cy''\<rparr>)
   \<and> newGuess ''r1'' (CHR ''x'') ex_world_cat =
        (Inr ex_gi_x,
         ex_world_cat\<lparr>rooms := (rooms ex_world_cat)(''r1'' \<mapsto> ex_room_cat_x\<lparr>currentTurn := ''cy''\<rparr>),
                      events := events ex_world_cat @ [NewGuess ''r1'' ex_gi_x, NewTurn ''r1'' ''cy'']\<rparr>)
   \<and> guess_player ex_gi_x = currentTurn ex_room_cat"
proof -
  have h1: "rooms ex_world_cat ''r1'' = Some ex_room_cat" by (simp add: ex_world_cat_def)
  have h2: "CHR ''x'' \<notin> guessedLetters ex_room_cat" by (simp add: ex_room_cat_def)
  have h3: "room_addGuess (CHR ''x'') ex_room_cat = Inr (ex_gi_x, ex_room_cat_x)"
    by (simp add: room_addGuess_def ex_defs Let_def)
  have h4: "fst (svc_checkGameFinished ''r1''
               (ex_world_cat\<lparr>rooms := (rooms ex_world_cat)(''r1'' \<mapsto> ex_room_cat_x),
                  events := events ex_world_cat @ [NewGuess ''r1'' ex_gi_x]\<rparr>)) = Inr None"
    by (simp add: svc_checkGameFinished_def ex_defs)
  have h5: "room_updateNextTurn ex_room_cat_x = Inr (''cy'', ex_room_cat_x\<lparr>currentTurn := ''cy''\<rparr>)"
    by (simp add: room_updateNextTurn_def guessers_def ex_defs Let_def)
  show ?thesis
    using h1 h2 h3 h5 newGuess_order[OF h1 h2 h3 h4 h5] by simp
qed

text \<open>
  C5, as amended. The remove-player endpoint calls the service with \<^verbatim>\<open>{save: false}\<close>
  (line 86): whatever the request does, the returning-player history is what it was
  before; no snapshot is saved by this endpoint.
\<close>

theorem removePlayer_keeps_history:
  "returningPlayers (snd (removePlayer roomId playerId s)) = returningPlayers s"
proof (cases "rooms s roomId")
  case None
  then show ?thesis
    by (simp add: removePlayer_def svc_removePlayer_def act_defs)
next
  case (Some r)
  show ?thesis
  proof (cases "find (\<lambda>p. player_id p = playerId) (players r)")
    case None
    with Some show ?thesis
      by (simp add: removePlayer_def svc_removePlayer_def act_defs)
  next
    case (Some p)
    show ?thesis
      unfolding removePlayer_result[OF \<open>rooms s roomId = Some r\<close> Some]
      by (simp add: Let_def split: sum.splits)
  qed
qed

text \<open>
  C5 as stated fails: Bob is removed from \<open>r1\<close> through the endpoint and the history
  holds no record for him afterwards.
\<close>

theorem removePlayer_history_counterexample:
  "fst (removePlayer ''r1'' ''bob'' ex_world_cat) = Inr ex_bob
   \<and> returningPlayers (snd (removePlayer ''r1'' ''bob'' ex_world_cat)) ''bob'' = None"
  by (simp add: removePlayer_def svc_removePlayer_def gw_leaveRoom_def svc_isPlayerInTurn_def
      svc_updateNextTurn_def room_updateNextTurn_def guessers_def gw_newTurn_def act_defs
      Let_def ex_defs)

text \<open>
  C6. A join of an existing room succeeds, the new player is appended to the room's
  players, and the new player's points are those of the caller's returning-player record
  when that record's room id is the joined room, and 0 in every other case (no record, or
  a record for another room).
\<close>

theorem joinRoom_initial_points:
  assumes "rooms s roomId = Some r"
  shows "\<exists>p s' r'.
           joinRoom roomId userName userId s = (Inr p, s')
         \<and> rooms s' roomId = Some r'
         \<and> players r' = players r @ [p]
         \<and> player_id p = userId
         \<and> points p =
             (case returningPlayers s userId of
                None \<Rightarrow> 0
              | Some rp \<Rightarrow> if rp_roomId rp = roomId then points (rp_player rp) else 0)"
  unfolding joinRoom_result[OF assms]
  by (simp add: Let_def)

text \<open>Ann rejoins \<open>r1\<close> with the 5 points of her record for \<open>r1\<close>.\<close>

theorem joinRoom_initial_points_witness:
  "rooms ex_world_rejoin ''r1'' = Some ex_room_await
   \<and> (\<exists>p s' r'.
         joinRoom ''r1'' ''Ann'' ''ann'' ex_world_rejoin = (Inr p, s')
       \<and> rooms s' ''r1'' = Some r'
       \<and> players r' = players ex_room_await @ [p]
       \<and> player_id p = ''ann''
       \<and> points p = 5)"
proof -
  have h1: "rooms ex_world_rejoin ''r1'' = Some ex_room_await"
    by (simp add: ex_world_rejoin_def)
  have h2: "(case returningPlayers ex_world_rejoin ''ann'' of
                None \<Rightarrow> 0
              | Some rp \<Rightarrow> if rp_roomId rp = ''r1'' then points (rp_player rp) else 0) = 5"
    by (simp add: ex_world_rejoin_def ex_ann_def)
  show ?thesis
    using h1 joinRoom_initial_points[OF h1, of "''Ann''" "''ann''"] unfolding h2 by simp
qed

text \<open>
  C7. A join where the caller's record says \<open>wasMaster\<close> and the room's round is the
  record's round: the joining player is in the room and is its master, the master change
  is broadcast after the join, and if no word is set the joining player is the turn
  holder and the new turn is broadcast last; with a word set the turn holder stays.
\<close>

theorem joinRoom_returning_master:
  assumes "rooms s roomId = Some r"
    and "returningPlayers s userId = Some rp"
    and "wasMaster rp" and "round r = rp_round rp"
  shows "\<exists>p s' r'.
           joinRoom roomId userName userId s = (Inr p, s')
         \<and> rooms s' roomId = Some r'
         \<and> player_id p = userId \<and> p \<in> set (players r')
         \<and> masterId r' = userId
         \<and> currentTurn r' = (if currentWord r = [] then userId else currentTurn r)
         \<and> events s' = events s @ [PlayerJoined roomId p, MasterChanged roomId userId]
                         @ (if currentWord r = [] then [NewTurn roomId userId] else [])"
  unfolding joinRoom_result[OF assms(1)]
  using assms(2,3,4) by (simp add: Let_def)

text \<open>Ann, master of \<open>r1\<close> when she left in round 2, rejoins in round 2 with no word
  set.\<close>

theorem joinRoom_returning_master_witness:
  "rooms ex_world_rejoin ''r1'' = Some ex_room_await
   \<and> returningPlayers ex_world_rejoin ''ann'' =
        Some \<lparr>rp_roomId = ''r1'', rp_round = 2, wasMaster = True, rp_player = ex_ann\<rparr>
   \<and> round ex_room_await = 2 \<and> currentWord ex_room_await = []
   \<and> (\<exists>p s' r'.
         joinRoom ''r1'' ''Ann'' ''ann'' ex_world_rejoin = (Inr p, s')
       \<and> rooms s' ''r1'' = Some r'
       \<and> player_id p = ''ann'' \<and> p \<in> set (players r')
       \<and> masterId r' = ''ann''
       \<and> currentTurn r' = ''ann''
       \<and> events s' = [PlayerJoined ''r1'' p, MasterChanged ''r1'' ''ann'', NewTurn ''r1'' ''ann''])"
proof -
  let ?rp = "\<lparr>rp_roomId = ''r1'', rp_round = 2, wasMaster = True, rp_player = ex_ann\<rparr>"
  have h1: "rooms ex_world_rejoin ''r1'' = Some ex_room_await"
    by (simp add: ex_world_rejoin_def)
  have h2: "returningPlayers ex_world_rejoin ''ann'' = Some ?rp"
    by (simp add: ex_world_rejoin_def)
  have h3: "wasMaster ?rp" by simp
  have h4: "round ex_room_await = rp_round ?rp" by (simp add: ex_room_await_def)
  have h5: "currentWord ex_room_await = []" by (simp add: ex_room_await_def)
  have h6: "events ex_world_rejoin = []" by (simp add: ex_world_rejoin_def)
  show ?thesis
    using h1 h2 h4 h5 joinRoom_returning_master[OF h1 h2 h3 h4, of "''Ann''"]
    unfolding h5 h6 by simp
qed




text \<open>
  C9. The master reassignment on join does not look at the record's room id: with a
  record saved for another room that says \<open>wasMaster\<close> and carries the joined room's round,
  the joiner is made master of the joined room and the change is broadcast, while the
  points, which do depend on the room id, start at 0.
\<close>

theorem joinRoom_master_ignores_room:
  assumes "rooms s roomId = Some r"
    and "returningPlayers s userId = Some rp"
    and "rp_roomId rp \<noteq> roomId"
    and "wasMaster rp" and "round r = rp_round rp"
  shows "\<exists>p s' r'.
           joinRoom roomId userName userId s = (Inr p, s')
         \<and> rooms s' roomId = Some r'
         \<and> player_id p = userId \<and> points p = 0
         \<and> masterId r' = userId
         \<and> MasterChanged roomId userId \<in> set (events s')"
  unfolding joinRoom_result[OF assms(1)]
  using assms(2,3,4,5) by (simp add: Let_def)

text \<open>Ann's record is for room \<open>r0\<close>; she joins \<open>r1\<close>.\<close>

theorem joinRoom_master_ignores_room_witness:
  "rooms ex_world_other ''r1'' = Some ex_room_await
   \<and> returningPlayers ex_world_other ''ann'' =
        Some \<lparr>rp_roomId = ''r0'', rp_round = 2, wasMaster = True, rp_player = ex_ann\<rparr>
   \<and> round ex_room_await = 2
   \<and> (\<exists>p s' r'.
         joinRoom ''r1'' ''Ann'' ''ann'' ex_world_other = (Inr p, s')
       \<and> rooms s' ''r1'' = Some r'
       \<and> player_id p = ''ann'' \<and> points p = 0
       \<and> masterId r' = ''ann''
       \<and> MasterChanged ''r1'' ''ann'' \<in> set (events s'))"
proof -
  let ?rp = "\<lparr>rp_roomId = ''r0'', rp_round = 2, wasMaster = True, rp_player = ex_ann\<rparr>"
  have h1: "rooms ex_world_other ''r1'' = Some ex_room_await"
    by (simp add: ex_world_other_def)
  have h2: "returningPlayers ex_world_other ''ann'' = Some ?rp"
    by (simp add: ex_world_other_def)
  have h3: "rp_roomId ?rp \<noteq> ''r1''" by simp
  have h4: "wasMaster ?rp" by simp
  have h5: "round ex_room_await = rp_round ?rp" by (simp add: ex_room_await_def)
  show ?thesis
    using h1 h2 h5 joinRoom_master_ignores_room[OF h1 h2 h3 h4 h5, of "''Ann''"] by simp
qed



end
